theory Spec2Isabelle
  imports Complex_Main
begin

section \<open>JavaScript values\<close>

text \<open>
  The validator shim is untyped JavaScript, so its arguments and results are values of
  one type. A number is an IEEE double: \<open>NaN\<close>, an infinity, the negative zero or a
  finite value, which is a rational (\<open>Fin 0\<close> is the positive zero). A symbol is
  identified by a number. Objects are references (an object is equal to itself only),
  functions are identified by the function object they are.
\<close>

datatype jsnum = NaN | NegInf | NegZero | Fin rat | PosInf

type_synonym addr = nat

text \<open>
  The function objects: a function of the third-party validator library (\<open>Lib k\<close>,
  the k-th function object of that library), a function of the engine (\<open>Native k\<close>),
  the sixteen members of \<open>extensions\<close>, and the three functions assigned to
  \<open>validator\<close> directly.
\<close>

datatype fid =
    Lib nat
  | Native nat
  | Ext_extend | Ext_notEmpty | Ext_len | Ext_isUrl | Ext_isIPv6 | Ext_isIPv4
  | Ext_notIn | Ext_regex | Ext_notRegex | Ext_isDecimal | Ext_min | Ext_max
  | Ext_not | Ext_contains | Ext_notContains | Ext_is
  | Fn_isImmutable | Fn_notNull | Fn_isDate

datatype jsval =
    JUndefined
  | JNull
  | JBool bool
  | JNum jsnum
  | JStr string
  | JBigInt int
  | JSymbol nat
  | JObj addr
  | JFun fid

datatype error = TypeError | SyntaxError | RangeError

definition is_zero :: "jsnum \<Rightarrow> bool" where
  "is_zero n = (n = NegZero \<or> n = Fin 0)"

text \<open>\<open>Boolean(v)\<close>, the truthiness that \<open>!\<close>, \<open>||\<close> and \<open>&&\<close> test.\<close>

fun truthy :: "jsval \<Rightarrow> bool" where
  "truthy JUndefined = False"
| "truthy JNull = False"
| "truthy (JBool b) = b"
| "truthy (JNum n) = (if n = NaN then False else if is_zero n then False else True)"
| "truthy (JStr s) = (if s = [] then False else True)"
| "truthy (JBigInt n) = (if n = 0 then False else True)"
| "truthy (JSymbol k) = True"
| "truthy (JObj a) = True"
| "truthy (JFun f) = True"

text \<open>\<open>!a\<close> is a boolean.\<close>

definition js_not :: "jsval \<Rightarrow> jsval" where
  "js_not a = JBool (if truthy a then False else True)"

text \<open>
  \<open>a === b\<close>: values of different types are different, \<open>NaN\<close> is different from
  every number and from itself, the two zeros are equal, every other value is equal to
  itself only.
\<close>

fun strict_equals :: "jsval \<Rightarrow> jsval \<Rightarrow> bool" where
  "strict_equals (JNum a) (JNum b) =
     (if a = NaN then False else if b = NaN then False
      else if is_zero a then is_zero b else a = b)"
| "strict_equals x y = (x = y)"

section \<open>Instance based validators\<close>

text \<open>
  \<open>dataValues\<close> and \<open>_previousDataValues\<close> are objects keyed by field name. An
  object has its own properties and a prototype, and a property holds a value or has a
  getter (or neither, an accessor without getter). Reading \<open>ob[key]\<close> finds the
  property on the object or, failing that, along its prototypes; it gives the value,
  what the getter returns or throws when called on \<open>ob\<close>, and \<open>undefined\<close> where no
  object of the chain has the property. What a getter does is a parameter; a getter
  reads no state that another read writes.
\<close>

datatype property = Data jsval | Accessor "fid option"

datatype js_object = Object "(string \<times> property) list" "js_object option"

fun find_property :: "js_object \<Rightarrow> string \<Rightarrow> property option" where
  "find_property (Object own proto) key =
     (case map_of own key of
        Some p \<Rightarrow> Some p
      | None \<Rightarrow> (case proto of None \<Rightarrow> None | Some parent \<Rightarrow> find_property parent key))"

definition get_prop ::
    "(fid \<Rightarrow> js_object \<Rightarrow> error + jsval) \<Rightarrow> js_object \<Rightarrow> string \<Rightarrow> error + jsval" where
  "get_prop getter ob key =
     (case find_property ob key of
        None \<Rightarrow> Inr JUndefined
      | Some (Data v) \<Rightarrow> Inr v
      | Some (Accessor None) \<Rightarrow> Inr JUndefined
      | Some (Accessor (Some g)) \<Rightarrow> getter g ob)"

text \<open>The parts of a model instance that \<open>isImmutable\<close> reads.\<close>

record model_instance =
  isNewRecord :: jsval
  dataValues :: js_object
  previousDataValues :: js_object

text \<open>
  \<open>isImmutable\<close>: the value of \<open>isNewRecord\<close> where that is truthy; otherwise the
  two reads, the current value first, and \<open>===\<close> on what they give.
\<close>

definition isImmutable ::
    "(fid \<Rightarrow> js_object \<Rightarrow> error + jsval) \<Rightarrow> jsval \<Rightarrow> jsval \<Rightarrow> string \<Rightarrow> model_instance
      \<Rightarrow> error + jsval" where
  "isImmutable getter value validatorArgs field modelInstance =
     (if truthy (isNewRecord modelInstance) then Inr (isNewRecord modelInstance)
      else (case get_prop getter (dataValues modelInstance) field of
              Inl e \<Rightarrow> Inl e
            | Inr current \<Rightarrow>
                (case get_prop getter (previousDataValues modelInstance) field of
                   Inl e \<Rightarrow> Inl e
                 | Inr previous \<Rightarrow> Inr (JBool (strict_equals current previous)))))"

text \<open>\<open>validator.notNull\<close>.\<close>

definition notNull :: "jsval \<Rightarrow> jsval" where
  "notNull val = JBool (\<not> strict_equals val JNull \<and> \<not> strict_equals val JUndefined)"

section \<open>The platform\<close>

text \<open>
  What the shim calls and the repository does not contain: the regular expression
  engine, the conversions of the language between strings and numbers, the date
  parser of the engine where engines differ, and the \<open>moment\<close> library. These are
  parameters of the model. What the language fixes for every engine is defined below
  and is no parameter.

  The objects of the engine that \<open>regex\<close> meets live in a state of their own, the
  \<open>world\<close>: a regular expression with its source, its flags and its \<open>lastIndex\<close>,
  an array, or an object of which only the builtin tag matters. An address is an index
  of the world, and the calls that read or write it take the world and return it.
\<close>

datatype wobj =
    RegExpObject string string nat
  | ArrayObject "jsval list"
  | OtherObject string

type_synonym world = "wobj list"

record engine =
  RegExp_new_other :: "world \<Rightarrow> jsval \<Rightarrow> jsval \<Rightarrow> (error + jsval) \<times> world"
  String_match_other :: "world \<Rightarrow> string \<Rightarrow> jsval \<Rightarrow> (error + jsval) \<times> world"
  includes_search :: "jsval \<Rightarrow> error + string"
  StringNumericValue :: "string \<Rightarrow> jsnum"
  Date_parse_other :: "string \<Rightarrow> jsnum"
  moment_isValid_other :: "string \<Rightarrow> bool"

subsection \<open>Strings\<close>

text \<open>
  A string is the list of its code units, which the model takes below 256.
  \<open>starts_with s p\<close> is \<open>s.startsWith(p)\<close>, \<open>str_includes s e\<close> is \<open>s.includes(e)\<close> for a
  string \<open>e\<close>.
\<close>

fun starts_with :: "string \<Rightarrow> string \<Rightarrow> bool" where
  "starts_with s [] = True"
| "starts_with [] (c # cs) = False"
| "starts_with (x # xs) (c # cs) = (if x = c then starts_with xs cs else False)"

fun str_includes :: "string \<Rightarrow> string \<Rightarrow> bool" where
  "str_includes [] e = (e = [])"
| "str_includes (x # xs) e = (if starts_with (x # xs) e then True else str_includes xs e)"

definition is_digit :: "char \<Rightarrow> bool" where
  "is_digit c = (c \<in> set ''0123456789'')"

fun index_of :: "'a \<Rightarrow> 'a list \<Rightarrow> nat" where
  "index_of a [] = 0"
| "index_of a (x # xs) = (if x = a then 0 else Suc (index_of a xs))"

definition digit_value :: "char \<Rightarrow> nat" where
  "digit_value c = index_of c ''0123456789''"

definition digit_char :: "nat \<Rightarrow> char" where
  "digit_char n = ''0123456789'' ! (n mod 10)"

definition decimal_value :: "string \<Rightarrow> nat" where
  "decimal_value ds = foldl (\<lambda>n c. 10 * n + digit_value c) 0 ds"

text \<open>
  \<open>Object.prototype.toString.call(v)\<close> is \<open>[object T]\<close> for the builtin tag \<open>T\<close> of
  \<open>v\<close>. \<open>slice_8_m1\<close> is \<open>s.slice(8, -1)\<close>.
\<close>

definition object_tag :: "world \<Rightarrow> addr \<Rightarrow> string" where
  "object_tag w a =
     (if a < length w
      then (case w ! a of
              RegExpObject source flags lastIndex \<Rightarrow> ''RegExp''
            | ArrayObject elements \<Rightarrow> ''Array''
            | OtherObject tag \<Rightarrow> tag)
      else ''Object'')"

definition builtin_tag :: "world \<Rightarrow> jsval \<Rightarrow> string" where
  "builtin_tag w v =
     (case v of
        JUndefined \<Rightarrow> ''Undefined''
      | JNull \<Rightarrow> ''Null''
      | JBool b \<Rightarrow> ''Boolean''
      | JNum n \<Rightarrow> ''Number''
      | JStr s \<Rightarrow> ''String''
      | JBigInt n \<Rightarrow> ''BigInt''
      | JSymbol k \<Rightarrow> ''Symbol''
      | JObj a \<Rightarrow> object_tag w a
      | JFun f \<Rightarrow> ''Function'')"

definition Object_toString :: "world \<Rightarrow> jsval \<Rightarrow> string" where
  "Object_toString w v = ''[object '' @ builtin_tag w v @ '']''"

definition slice_8_m1 :: "string \<Rightarrow> string" where
  "slice_8_m1 s = butlast (drop 8 s)"

subsection \<open>Regular expressions\<close>

text \<open>
  \<open>new RegExp(pattern, modifiers)\<close> and \<open>str.match(pattern)\<close>, as far as every
  engine agrees on patterns without syntax characters; the rest is a parameter.

  A pattern that opens a group and never closes it is a \<open>SyntaxError\<close>. A pattern of
  letters and digits matches itself; compiled without flags or with the sticky flag
  \<open>y\<close>, it is a new regular expression whose \<open>lastIndex\<close> is 0.

  \<open>match\<close> with such an expression without flags searches the string from its start
  and leaves \<open>lastIndex\<close> alone. With the sticky flag the match has to start at
  \<open>lastIndex\<close>: a match moves \<open>lastIndex\<close> to its end, a failure sets it to 0. The
  result is a new array that holds the match, or \<open>null\<close>.
\<close>

definition plain_char :: "char \<Rightarrow> bool" where
  "plain_char c =
     (c \<in> set ''abcdefghijklmnopqrstuvwxyzABCDEFGHIJKLMNOPQRSTUVWXYZ0123456789'')"

definition plain_pattern :: "string \<Rightarrow> bool" where
  "plain_pattern p = (if p = [] then False else list_all plain_char p)"

definition unterminated_group :: "string \<Rightarrow> bool" where
  "unterminated_group p =
     (case p of [] \<Rightarrow> False | c # r \<Rightarrow> if c = CHR ''('' then list_all plain_char r else False)"

definition flags_of :: "jsval \<Rightarrow> string option" where
  "flags_of modifiers =
     (case modifiers of JUndefined \<Rightarrow> Some [] | JStr f \<Rightarrow> Some f | _ \<Rightarrow> None)"

definition RegExp_new :: "engine \<Rightarrow> world \<Rightarrow> jsval \<Rightarrow> jsval \<Rightarrow> (error + jsval) \<times> world" where
  "RegExp_new E w pattern modifiers =
     (case pattern of
        JStr p \<Rightarrow>
          (case flags_of modifiers of
             Some f \<Rightarrow>
               if unterminated_group p then (Inl SyntaxError, w)
               else if plain_pattern p \<and> (f = [] \<or> f = ''y'')
               then (Inr (JObj (length w)), w @ [RegExpObject p f 0])
               else RegExp_new_other E w pattern modifiers
           | None \<Rightarrow> RegExp_new_other E w pattern modifiers)
      | _ \<Rightarrow> RegExp_new_other E w pattern modifiers)"

definition match_plain :: "world \<Rightarrow> string \<Rightarrow> string \<Rightarrow> (error + jsval) \<times> world" where
  "match_plain w str p =
     (if str_includes str p
      then (Inr (JObj (length w)), w @ [ArrayObject [JStr p]])
      else (Inr JNull, w))"

definition match_sticky ::
    "world \<Rightarrow> addr \<Rightarrow> string \<Rightarrow> string \<Rightarrow> nat \<Rightarrow> (error + jsval) \<times> world" where
  "match_sticky w a str p lastIndex =
     (if lastIndex \<le> length str \<and> starts_with (drop lastIndex str) p
      then (Inr (JObj (length w)),
            w[a := RegExpObject p ''y'' (lastIndex + length p)] @ [ArrayObject [JStr p]])
      else (Inr JNull, w[a := RegExpObject p ''y'' 0]))"

definition String_match :: "engine \<Rightarrow> world \<Rightarrow> string \<Rightarrow> jsval \<Rightarrow> (error + jsval) \<times> world" where
  "String_match E w str pattern =
     (case pattern of
        JObj a \<Rightarrow>
          if a < length w
          then (case w ! a of
                  RegExpObject p f lastIndex \<Rightarrow>
                    if plain_pattern p \<and> f = [] then match_plain w str p
                    else if plain_pattern p \<and> f = ''y'' then match_sticky w a str p lastIndex
                    else String_match_other E w str pattern
                | _ \<Rightarrow> String_match_other E w str pattern)
          else String_match_other E w str pattern
      | _ \<Rightarrow> String_match_other E w str pattern)"

subsection \<open>Numbers\<close>

definition isNaN :: "jsnum \<Rightarrow> bool" where
  "isNaN n = (n = NaN)"

text \<open>
  \<open>a <= b\<close> on numbers: false when either is \<open>NaN\<close>; the negative zero compares
  as zero. \<open>a >= b\<close> is \<open>b <= a\<close>.
\<close>

fun js_le :: "jsnum \<Rightarrow> jsnum \<Rightarrow> bool" where
  "js_le NaN b = False"
| "js_le a NaN = False"
| "js_le NegInf b = True"
| "js_le a PosInf = True"
| "js_le PosInf b = False"
| "js_le a NegInf = False"
| "js_le NegZero NegZero = True"
| "js_le NegZero (Fin y) = (0 \<le> y)"
| "js_le (Fin x) NegZero = (x \<le> 0)"
| "js_le (Fin x) (Fin y) = (x \<le> y)"

definition js_ge :: "jsnum \<Rightarrow> jsnum \<Rightarrow> bool" where
  "js_ge a b = js_le b a"

text \<open>
  \<open>Number.parseFloat\<close>: leading white space is dropped, the longest prefix that is a
  \<open>StrDecimalLiteral\<close> is converted, and there being none gives \<open>NaN\<close>. The literal is
  an optional sign, then \<open>Infinity\<close> or digits with an optional fraction and an
  optional exponent, or a fraction that starts with the point. The double a literal
  denotes is the engine's conversion, a parameter.
\<close>

definition is_white_space :: "char \<Rightarrow> bool" where
  "is_white_space c = (of_char c \<in> set [9, 10, 11, 12, 13, 32, 160 :: nat])"

definition digits :: "string \<Rightarrow> string" where
  "digits s = takeWhile is_digit s"

definition after_digits :: "string \<Rightarrow> string" where
  "after_digits s = dropWhile is_digit s"

definition sign_prefix :: "string \<Rightarrow> string" where
  "sign_prefix s =
     (case s of [] \<Rightarrow> [] | c # r \<Rightarrow> if c = CHR ''+'' \<or> c = CHR ''-'' then [c] else [])"

definition after_sign :: "string \<Rightarrow> string" where
  "after_sign s = drop (length (sign_prefix s)) s"

definition exponent_part :: "string \<Rightarrow> string" where
  "exponent_part s =
     (case s of
        [] \<Rightarrow> []
      | c # r \<Rightarrow>
          if c = CHR ''e'' \<or> c = CHR ''E''
          then (if digits (after_sign r) = [] then []
                else c # sign_prefix r @ digits (after_sign r))
          else [])"

definition unsigned_prefix :: "string \<Rightarrow> string option" where
  "unsigned_prefix s =
     (if starts_with s ''Infinity'' then Some ''Infinity''
      else
        (case after_digits s of
           [] \<Rightarrow> if digits s = [] then None else Some (digits s)
         | c # r \<Rightarrow>
             if c = CHR ''.''
             then (if digits s = [] \<and> digits r = [] then None
                   else Some (digits s @ [c] @ digits r @ exponent_part (after_digits r)))
             else if digits s = [] then None
             else Some (digits s @ exponent_part (c # r))))"

definition StrDecimalLiteral_prefix :: "string \<Rightarrow> string option" where
  "StrDecimalLiteral_prefix s =
     (case unsigned_prefix (after_sign s) of
        None \<Rightarrow> None
      | Some u \<Rightarrow> Some (sign_prefix s @ u))"

definition parseFloat :: "engine \<Rightarrow> string \<Rightarrow> jsnum" where
  "parseFloat E inputString =
     (case StrDecimalLiteral_prefix (dropWhile is_white_space inputString) of
        None \<Rightarrow> NaN
      | Some trimmedPrefix \<Rightarrow> StringNumericValue E trimmedPrefix)"

section \<open>The extension predicates\<close>

text \<open>
  The members of \<open>extensions\<close> are called as methods of the validator namespace, and
  several of them call another member through \<open>this\<close>. \<open>validator_this\<close> holds the
  methods that the members below reach through \<open>this\<close>: each is what the call
  \<open>this.name(...)\<close> does, the value it returns or the error it throws (a
  \<open>TypeError\<close> where \<open>this.name\<close> is no function). The call of \<open>this.regex\<close>
  takes the world and returns it.

  Sequelize passes \<open>String(value)\<close> as the first argument of a builtin validator,
  so \<open>str\<close> is a string; on a string \<open>String(str)\<close> is \<open>str\<close>. The bound of
  \<open>min\<close> and \<open>max\<close> is a number, and the second argument of \<open>notIn\<close> is the list
  of the elements of an array.
\<close>

record validator_this =
  this_isIn :: "string \<Rightarrow> jsval list \<Rightarrow> error + jsval"
  this_regex :: "world \<Rightarrow> string \<Rightarrow> jsval \<Rightarrow> jsval \<Rightarrow> (error + jsval) \<times> world"
  this_contains :: "string \<Rightarrow> jsval \<Rightarrow> error + jsval"

text \<open>\<open>!e\<close> for a call \<open>e\<close> that returns or throws.\<close>

definition not_result :: "error + jsval \<Rightarrow> error + jsval" where
  "not_result r = (case r of Inl e \<Rightarrow> Inl e | Inr v \<Rightarrow> Inr (js_not v))"

definition notIn :: "validator_this \<Rightarrow> string \<Rightarrow> jsval list \<Rightarrow> error + jsval" where
  "notIn this str values = not_result (this_isIn this str values)"

text \<open>
  \<open>regex\<close>: a pattern that is no \<open>RegExp\<close> is compiled with the modifiers, which
  throws a \<open>SyntaxError\<close> on a pattern or on flags that are malformed; the result is
  what \<open>str.match(pattern)\<close> returns, the array of the match or \<open>null\<close>. Both
  steps work on the world: compiling adds the new expression, and \<open>match\<close> adds the
  array and moves the \<open>lastIndex\<close> of a sticky expression. \<open>notRegex\<close> negates what
  its one call of \<open>this.regex\<close> returns and leaves the world as that call left it.
\<close>

definition regex ::
    "engine \<Rightarrow> world \<Rightarrow> string \<Rightarrow> jsval \<Rightarrow> jsval \<Rightarrow> (error + jsval) \<times> world" where
  "regex E w str pattern modifiers =
     (if slice_8_m1 (Object_toString w pattern) \<noteq> ''RegExp''
      then (case RegExp_new E w pattern modifiers of
              (Inl e, w') \<Rightarrow> (Inl e, w')
            | (Inr compiled, w') \<Rightarrow> String_match E w' str compiled)
      else String_match E w str pattern)"

definition notRegex ::
    "validator_this \<Rightarrow> world \<Rightarrow> string \<Rightarrow> jsval \<Rightarrow> jsval \<Rightarrow> (error + jsval) \<times> world" where
  "notRegex this w str pattern modifiers =
     (case this_regex this w str pattern modifiers of (r, w') \<Rightarrow> (not_result r, w'))"

text \<open>
  \<open>min\<close> and \<open>max\<close> (named \<open>min_v\<close> and \<open>max_v\<close> here, beside the functions of HOL).
\<close>

definition min_v :: "engine \<Rightarrow> string \<Rightarrow> jsnum \<Rightarrow> jsval" where
  "min_v E str val = (let number = parseFloat E str in JBool (isNaN number \<or> js_ge number val))"

definition max_v :: "engine \<Rightarrow> string \<Rightarrow> jsnum \<Rightarrow> jsval" where
  "max_v E str val = (let number = parseFloat E str in JBool (isNaN number \<or> js_le number val))"

text \<open>
  \<open>contains\<close>: \<open>Boolean(elem) && str.includes(elem)\<close> is \<open>false\<close> for a falsy
  \<open>elem\<close>, and the result of \<open>includes\<close> otherwise, which searches for \<open>elem\<close> as a
  string. What \<open>includes\<close> makes of a value that is no string (its conversion, or a
  \<open>TypeError\<close> for a regular expression) is a parameter.
\<close>

definition String_includes :: "engine \<Rightarrow> string \<Rightarrow> jsval \<Rightarrow> error + jsval" where
  "String_includes E str elem =
     (case elem of
        JStr e \<Rightarrow> Inr (JBool (str_includes str e))
      | _ \<Rightarrow> (case includes_search E elem of
                Inl err \<Rightarrow> Inl err
              | Inr e \<Rightarrow> Inr (JBool (str_includes str e))))"

definition contains :: "engine \<Rightarrow> string \<Rightarrow> jsval \<Rightarrow> error + jsval" where
  "contains E str elem =
     (if truthy elem then String_includes E str elem else Inr (JBool False))"

definition notContains :: "validator_this \<Rightarrow> string \<Rightarrow> jsval \<Rightarrow> error + jsval" where
  "notContains this str elem = not_result (this_contains this str elem)"

section \<open>The date predicate\<close>

text \<open>
  Time values are milliseconds since the epoch, in UTC, and a day number counts days
  from 1970-01-01. The calendar is the proleptic Gregorian one, computed in eras of 400
  years and in years that start on the first of March: \<open>days_from_civil\<close> is the day
  number of a date, \<open>year_from_days\<close>, \<open>month_from_days\<close> and \<open>date_from_days\<close> are
  the date of a day number.
\<close>

definition ms_per_day :: int where
  "ms_per_day = 86400000"

definition is_leap_year :: "int \<Rightarrow> bool" where
  "is_leap_year y = (y mod 4 = 0 \<and> (y mod 100 \<noteq> 0 \<or> y mod 400 = 0))"

definition days_in_month :: "int \<Rightarrow> int \<Rightarrow> int" where
  "days_in_month y m =
     (if m = 2 then (if is_leap_year y then 29 else 28)
      else if m = 4 \<or> m = 6 \<or> m = 9 \<or> m = 11 then 30
      else 31)"

definition march_year :: "int \<Rightarrow> int \<Rightarrow> int" where
  "march_year y m = (if m \<le> 2 then y - 1 else y)"

definition days_before_march_year :: "int \<Rightarrow> int" where
  "days_before_march_year y =
     (y div 400) * 146097 + (y mod 400) * 365 + (y mod 400) div 4 - (y mod 400) div 100"

definition day_of_march_year :: "int \<Rightarrow> int \<Rightarrow> int" where
  "day_of_march_year m d = (153 * (if m > 2 then m - 3 else m + 9) + 2) div 5 + d - 1"

definition days_from_civil :: "int \<Rightarrow> int \<Rightarrow> int \<Rightarrow> int" where
  "days_from_civil y m d =
     days_before_march_year (march_year y m) + day_of_march_year m d - 719468"

definition era_of :: "int \<Rightarrow> int" where
  "era_of z = (z + 719468) div 146097"

definition day_of_era :: "int \<Rightarrow> int" where
  "day_of_era z = (z + 719468) mod 146097"

definition year_of_era :: "int \<Rightarrow> int" where
  "year_of_era doe = (doe - doe div 1460 + doe div 36524 - doe div 146096) div 365"

definition day_of_year :: "int \<Rightarrow> int" where
  "day_of_year doe =
     doe - (365 * year_of_era doe + year_of_era doe div 4 - year_of_era doe div 100)"

definition month_index :: "int \<Rightarrow> int" where
  "month_index z = (5 * day_of_year (day_of_era z) + 2) div 153"

definition month_from_days :: "int \<Rightarrow> int" where
  "month_from_days z = (if month_index z < 10 then month_index z + 3 else month_index z - 9)"

definition date_from_days :: "int \<Rightarrow> int" where
  "date_from_days z = day_of_year (day_of_era z) - (153 * month_index z + 2) div 5 + 1"

definition year_from_days :: "int \<Rightarrow> int" where
  "year_from_days z =
     year_of_era (day_of_era z) + era_of z * 400 + (if month_from_days z \<le> 2 then 1 else 0)"

text \<open>
  \<open>Date.parse\<close>. Every engine reads a calendar date \<open>YYYY-MM-DD\<close> with a month and
  a day that exist as the start of that day in UTC, and no engine finds a date in a
  string without a digit. Engines differ on other strings (the language leaves the
  formats beyond its own to them), so the result there is a parameter.
\<close>

definition field_value :: "nat \<Rightarrow> nat \<Rightarrow> string \<Rightarrow> int" where
  "field_value pos len s = int (decimal_value (take len (drop pos s)))"

definition is_field :: "nat \<Rightarrow> nat \<Rightarrow> string \<Rightarrow> bool" where
  "is_field pos len s = list_all is_digit (take len (drop pos s))"

definition is_calendar_date :: "string \<Rightarrow> bool" where
  "is_calendar_date s =
     (length s = 10 \<and> is_field 0 4 s \<and> s ! 4 = CHR ''-'' \<and> is_field 5 2 s
      \<and> s ! 7 = CHR ''-'' \<and> is_field 8 2 s)"

definition date_exists :: "int \<Rightarrow> int \<Rightarrow> int \<Rightarrow> bool" where
  "date_exists y m d = (1 \<le> m \<and> m \<le> 12 \<and> 1 \<le> d \<and> d \<le> days_in_month y m)"

definition iso_calendar_date :: "string \<Rightarrow> int option" where
  "iso_calendar_date s =
     (if is_calendar_date s
         \<and> date_exists (field_value 0 4 s) (field_value 5 2 s) (field_value 8 2 s)
      then Some (days_from_civil (field_value 0 4 s) (field_value 5 2 s) (field_value 8 2 s)
                 * ms_per_day)
      else None)"

definition Date_parse :: "engine \<Rightarrow> string \<Rightarrow> jsnum" where
  "Date_parse E s =
     (case iso_calendar_date s of
        Some t \<Rightarrow> Fin (of_int t)
      | None \<Rightarrow> if list_ex is_digit s then Date_parse_other E s else NaN)"

text \<open>
  \<open>new Date(n)\<close> holds a time value, or none (an invalid date) when \<open>n\<close> is not
  finite or is beyond 8.64e15 milliseconds: a number is cut to an integer towards zero.
\<close>

definition Date_new :: "jsnum \<Rightarrow> int option" where
  "Date_new n =
     (case n of
        Fin q \<Rightarrow> if \<bar>q\<bar> > 8640000000000000 then None
                 else Some (if q < 0 then \<lceil>q\<rceil> else \<lfloor>q\<rfloor>)
      | NegZero \<Rightarrow> Some 0
      | _ \<Rightarrow> None)"

text \<open>
  \<open>toISOString\<close>: \<open>YYYY-MM-DDTHH:mm:ss.sssZ\<close>, the year with a sign and six digits
  when it is not within 0 and 9999; a \<open>RangeError\<close> on an invalid date.
\<close>

definition digit_of :: "int \<Rightarrow> char" where
  "digit_of n = digit_char (nat (n mod 10))"

definition pad2 :: "int \<Rightarrow> string" where
  "pad2 n = [digit_of (n div 10), digit_of n]"

definition pad3 :: "int \<Rightarrow> string" where
  "pad3 n = digit_of (n div 100) # pad2 n"

definition pad4 :: "int \<Rightarrow> string" where
  "pad4 n = digit_of (n div 1000) # pad3 n"

definition pad6 :: "int \<Rightarrow> string" where
  "pad6 n = digit_of (n div 100000) # digit_of (n div 10000) # pad4 n"

definition iso_year :: "int \<Rightarrow> string" where
  "iso_year y =
     (if 0 \<le> y \<and> y \<le> 9999 then pad4 y
      else (if y < 0 then ''-'' else ''+'') @ pad6 \<bar>y\<bar>)"

definition iso_string :: "int \<Rightarrow> string" where
  "iso_string t =
     iso_year (year_from_days (t div ms_per_day)) @ ''-''
     @ pad2 (month_from_days (t div ms_per_day)) @ ''-''
     @ pad2 (date_from_days (t div ms_per_day)) @ ''T''
     @ pad2 (t div 3600000 mod 24) @ '':''
     @ pad2 (t div 60000 mod 60) @ '':''
     @ pad2 (t div 1000 mod 60) @ ''.''
     @ pad3 (t mod 1000) @ ''Z''"

definition toISOString :: "int option \<Rightarrow> error + string" where
  "toISOString date = (case date of None \<Rightarrow> Inl RangeError | Some t \<Rightarrow> Inr (iso_string t))"

text \<open>
  \<open>moment(s).isValid()\<close>. \<open>moment\<close> reads \<open>YYYY-MM-DDTHH:mm:ss.sssZ\<close> as ISO 8601
  and the instant is valid when the month, the day of the month, the hour, the minute
  and the second exist. What it makes of another string is a parameter.
\<close>

definition is_iso_instant :: "string \<Rightarrow> bool" where
  "is_iso_instant s =
     (length s = 24 \<and> is_field 0 4 s \<and> s ! 4 = CHR ''-'' \<and> is_field 5 2 s
      \<and> s ! 7 = CHR ''-'' \<and> is_field 8 2 s \<and> s ! 10 = CHR ''T'' \<and> is_field 11 2 s
      \<and> s ! 13 = CHR '':'' \<and> is_field 14 2 s \<and> s ! 16 = CHR '':'' \<and> is_field 17 2 s
      \<and> s ! 19 = CHR ''.'' \<and> is_field 20 3 s \<and> s ! 23 = CHR ''Z'')"

definition moment_isValid :: "engine \<Rightarrow> string \<Rightarrow> bool" where
  "moment_isValid E s =
     (if is_iso_instant s
         \<and> date_exists (field_value 0 4 s) (field_value 5 2 s) (field_value 8 2 s)
         \<and> field_value 11 2 s \<le> 23 \<and> field_value 14 2 s \<le> 59 \<and> field_value 17 2 s \<le> 59
      then True
      else moment_isValid_other E s)"

definition isDate :: "engine \<Rightarrow> string \<Rightarrow> error + jsval" where
  "isDate E dateString =
     (let parsed = Date_parse E dateString
      in if isNaN parsed then Inr (JBool False)
         else (case toISOString (Date_new parsed) of
                 Inl e \<Rightarrow> Inl e
               | Inr isoString \<Rightarrow> Inr (JBool (moment_isValid E isoString))))"

section \<open>The validator namespace and the initialisation of the module\<close>

text \<open>
  An object is the list of its own properties in the order of their creation, and the
  heap is the list of the objects, an address being an index. Assigning a property
  replaces its value where the object has it and adds it at the end otherwise; reading
  a property that the object has not gives \<open>undefined\<close> (the namespaces are plain
  objects, and their prototype has none of the names that the module reads or
  assigns).
\<close>

type_synonym obj = "(string \<times> jsval) list"

type_synonym heap = "obj list"

definition obj_at :: "heap \<Rightarrow> addr \<Rightarrow> obj" where
  "obj_at h a = (if a < length h then h ! a else [])"

fun set_prop :: "obj \<Rightarrow> string \<Rightarrow> jsval \<Rightarrow> obj" where
  "set_prop [] key v = [(key, v)]"
| "set_prop ((k, w) # ps) key v = (if k = key then (k, v) # ps else (k, w) # set_prop ps key v)"

definition own_value :: "obj \<Rightarrow> string \<Rightarrow> jsval" where
  "own_value ob key = (case map_of ob key of None \<Rightarrow> JUndefined | Some v \<Rightarrow> v)"

definition heap_get :: "heap \<Rightarrow> addr \<Rightarrow> string \<Rightarrow> jsval" where
  "heap_get h a key = own_value (obj_at h a) key"

definition heap_set :: "heap \<Rightarrow> addr \<Rightarrow> string \<Rightarrow> jsval \<Rightarrow> heap" where
  "heap_set h a key v = h[a := set_prop (obj_at h a) key v]"

text \<open>
  \<open>_.cloneDeep\<close> of an object: every object that the root reaches is copied to a
  new object, a reference to a copied object becomes the reference to its copy (so
  cycles and sharing are kept), and a function or a primitive value is the same in the
  copy. The objects that the root reaches are collected in rounds, the root first; the
  copies are allocated behind the heap in that order. The heap that existed is not
  written to.
\<close>

definition refs_of :: "obj \<Rightarrow> addr list" where
  "refs_of ob = concat (map (\<lambda>(key, v). case v of JObj a \<Rightarrow> [a] | _ \<Rightarrow> []) ob)"

definition is_reference :: "jsval \<Rightarrow> bool" where
  "is_reference v = (case v of JObj a \<Rightarrow> True | _ \<Rightarrow> False)"

text \<open>A heap without dangling references: every reference of every object is an address of the heap.\<close>

definition no_dangling :: "heap \<Rightarrow> bool" where
  "no_dangling h = list_all (\<lambda>ob. list_all (\<lambda>a. a < length h) (refs_of ob)) h"

definition reach_step :: "heap \<Rightarrow> addr list \<Rightarrow> addr list" where
  "reach_step h seen =
     seen @ filter (\<lambda>a. a \<notin> set seen) (remdups (concat (map (\<lambda>a. refs_of (obj_at h a)) seen)))"

definition reachable :: "heap \<Rightarrow> addr \<Rightarrow> addr list" where
  "reachable h start = (reach_step h ^^ length h) [start]"

definition clone_value :: "nat \<Rightarrow> addr list \<Rightarrow> jsval \<Rightarrow> jsval" where
  "clone_value base rs v = (case v of JObj a \<Rightarrow> JObj (base + index_of a rs) | _ \<Rightarrow> v)"

definition clone_object :: "nat \<Rightarrow> addr list \<Rightarrow> obj \<Rightarrow> obj" where
  "clone_object base rs ob = map (\<lambda>(key, v). (key, clone_value base rs v)) ob"

definition cloneDeep :: "heap \<Rightarrow> addr \<Rightarrow> heap \<times> addr" where
  "cloneDeep h start =
     (h @ map (\<lambda>a. clone_object (length h) (reachable h start) (obj_at h a)) (reachable h start),
      length h)"

text \<open>The object literal of \<open>extensions\<close>.\<close>

definition extensions_object :: obj where
  "extensions_object =
     [(''extend'', JFun Ext_extend),
      (''notEmpty'', JFun Ext_notEmpty),
      (''len'', JFun Ext_len),
      (''isUrl'', JFun Ext_isUrl),
      (''isIPv6'', JFun Ext_isIPv6),
      (''isIPv4'', JFun Ext_isIPv4),
      (''notIn'', JFun Ext_notIn),
      (''regex'', JFun Ext_regex),
      (''notRegex'', JFun Ext_notRegex),
      (''isDecimal'', JFun Ext_isDecimal),
      (''min'', JFun Ext_min),
      (''max'', JFun Ext_max),
      (''not'', JFun Ext_not),
      (''contains'', JFun Ext_contains),
      (''notContains'', JFun Ext_notContains),
      (''is'', JFun Ext_is)]"

text \<open>
  The state of the module: the heap and the two constants that the module exports. The
  statements of the module, in their order: \<open>validator\<close> is the deep clone of what
  \<open>require('validator')\<close> returns, the object \<open>lib\<close> that every importer of the
  library shares; \<open>extensions\<close> is a new object; \<open>isImmutable\<close> and \<open>notNull\<close> are
  assigned; \<open>_.forEach\<close> assigns every member of \<open>extensions\<close> to \<open>validator\<close>
  under its key; \<open>isNull\<close> is assigned what \<open>validator.isEmpty\<close> is; \<open>isDate\<close> is
  assigned.
\<close>

record module_state =
  heap :: heap
  validator :: addr
  extensions :: addr

definition load_validator :: "heap \<Rightarrow> addr \<Rightarrow> heap \<times> addr" where
  "load_validator h lib = cloneDeep h lib"

definition define_extensions :: "heap \<times> addr \<Rightarrow> module_state" where
  "define_extensions hv =
     \<lparr>heap = fst hv @ [extensions_object], validator = snd hv, extensions = length (fst hv)\<rparr>"

definition assign_validator :: "string \<Rightarrow> jsval \<Rightarrow> module_state \<Rightarrow> module_state" where
  "assign_validator key v st = st\<lparr>heap := heap_set (heap st) (validator st) key v\<rparr>"

definition forEach :: "obj \<Rightarrow> (jsval \<Rightarrow> string \<Rightarrow> module_state \<Rightarrow> module_state)
    \<Rightarrow> module_state \<Rightarrow> module_state" where
  "forEach collection iteratee st = fold (\<lambda>(key, v). iteratee v key) collection st"

definition install_extensions :: "module_state \<Rightarrow> module_state" where
  "install_extensions st =
     forEach (obj_at (heap st) (extensions st)) (\<lambda>extend key. assign_validator key extend) st"

definition map_isNull :: "module_state \<Rightarrow> module_state" where
  "map_isNull st = assign_validator ''isNull'' (heap_get (heap st) (validator st) ''isEmpty'') st"

definition patch_validator :: "module_state \<Rightarrow> module_state" where
  "patch_validator st =
     assign_validator ''isDate'' (JFun Fn_isDate)
       (map_isNull
         (install_extensions
           (assign_validator ''notNull'' (JFun Fn_notNull)
             (assign_validator ''isImmutable'' (JFun Fn_isImmutable) st))))"

definition init_module :: "heap \<Rightarrow> addr \<Rightarrow> module_state" where
  "init_module h lib = patch_validator (define_extensions (load_validator h lib))"

text \<open>
  A call \<open>ob.name(args)\<close> in heap \<open>h\<close>, for a meaning \<open>sem\<close> of the function
  objects (what a function does in a heap, on a receiver and arguments): a
  \<open>TypeError\<close> where \<open>ob.name\<close> is no function.
\<close>

definition call_method ::
    "(fid \<Rightarrow> heap \<Rightarrow> addr \<Rightarrow> jsval list \<Rightarrow> error + jsval)
      \<Rightarrow> heap \<Rightarrow> addr \<Rightarrow> string \<Rightarrow> jsval list \<Rightarrow> error + jsval" where
  "call_method sem h ob name args =
     (case heap_get h ob name of JFun f \<Rightarrow> sem f h ob args | _ \<Rightarrow> Inl TypeError)"

section \<open>Example inputs\<close>

text \<open>
  The prototype of a plain object, with the constructor and with the accessor
  \<open>__proto__\<close>, whose getter returns the prototype (the object at address 0 here);
  and a plain object with given properties of its own.
\<close>

definition example_prototype :: js_object where
  "example_prototype =
     Object [(''constructor'', Data (JFun (Native 0))),
             (''__proto__'', Accessor (Some (Native 1)))] None"

definition example_getter :: "fid \<Rightarrow> js_object \<Rightarrow> error + jsval" where
  "example_getter g ob = (if g = Native 1 then Inr (JObj 0) else Inr JUndefined)"

definition plain_object :: "(string \<times> property) list \<Rightarrow> js_object" where
  "plain_object own = Object own (Some example_prototype)"

text \<open>
  An engine that throws wherever the model leaves the answer to the engine, and a
  \<open>this\<close> with the library's \<open>isIn\<close> on an array of strings and with the extensions
  \<open>regex\<close> and \<open>contains\<close>, as the exported namespace has them.
\<close>

definition example_engine :: engine where
  "example_engine =
     \<lparr>RegExp_new_other = (\<lambda>w pattern modifiers. (Inl SyntaxError, w)),
      String_match_other = (\<lambda>w str pattern. (Inl TypeError, w)),
      includes_search = (\<lambda>v. Inl TypeError),
      StringNumericValue = (\<lambda>s. Fin 0),
      Date_parse_other = (\<lambda>s. NaN),
      moment_isValid_other = (\<lambda>s. False)\<rparr>"

definition example_this :: validator_this where
  "example_this =
     \<lparr>this_isIn = (\<lambda>str values. Inr (JBool (JStr str \<in> set values))),
      this_regex = regex example_engine,
      this_contains = contains example_engine\<rparr>"

text \<open>
  A heap that holds the library's namespace only, at address 0, with two of its
  functions and with the reference to itself that the library exports as \<open>default\<close>;
  and a meaning of the function objects in which the library's \<open>isEmpty\<close> holds of
  the empty string.
\<close>

definition example_heap :: heap where
  "example_heap =
     [[(''isEmpty'', JFun (Lib 0)), (''isIn'', JFun (Lib 1)), (''default'', JObj 0)]]"

definition example_sem :: "fid \<Rightarrow> heap \<Rightarrow> addr \<Rightarrow> jsval list \<Rightarrow> error + jsval" where
  "example_sem f h ob args =
     (if f = Lib 0
      then (case args of [JStr s] \<Rightarrow> Inr (JBool (s = [])) | _ \<Rightarrow> Inl TypeError)
      else Inl TypeError)"

text \<open>
  A heap with the namespace of a library that has an \<open>isDate\<close> of its own, and with
  an object that the namespace holds (the list of its locales).
\<close>

definition library_heap :: heap where
  "library_heap =
     [[(''isEmpty'', JFun (Lib 0)), (''isIn'', JFun (Lib 1)), (''isDate'', JFun (Lib 2)),
       (''locales'', JObj 1), (''default'', JObj 0)],
      [(''0'', JStr ''en-US'')]]"

section \<open>Properties of the instance based validators\<close>

text \<open>What \<open>===\<close> decides: the same value other than \<open>NaN\<close>, or two zeros.\<close>

lemma strict_equals_iff:
  "strict_equals x y
     = ((x = y \<and> x \<noteq> JNum NaN) \<or> (\<exists>a b. x = JNum a \<and> y = JNum b \<and> is_zero a \<and> is_zero b))"
  by (cases "(x, y)" rule: strict_equals.cases) (auto simp: is_zero_def)

text \<open>
  Claim C1, as it is written, fails: the field of an existing record holds \<open>NaN\<close>
  and has not been changed, so its current value is its previous value, and
  \<open>isImmutable\<close> returns \<open>false\<close>.
\<close>

theorem isImmutable_unchanged_NaN:
  "isNewRecord \<lparr>isNewRecord = JBool False,
                dataValues = plain_object [(''price'', Data (JNum NaN))],
                previousDataValues = plain_object [(''price'', Data (JNum NaN))]\<rparr>
     = JBool False
   \<and> get_prop example_getter (plain_object [(''price'', Data (JNum NaN))]) ''price''
       = Inr (JNum NaN)
   \<and> isImmutable example_getter (JStr ''NaN'') (JBool True) ''price''
        \<lparr>isNewRecord = JBool False,
         dataValues = plain_object [(''price'', Data (JNum NaN))],
         previousDataValues = plain_object [(''price'', Data (JNum NaN))]\<rparr>
       = Inr (JBool False)"
  by (simp add: isImmutable_def get_prop_def plain_object_def)

text \<open>
  Claim C1, amended. For an existing record (\<open>isNewRecord\<close> is falsy),
  \<open>isImmutable\<close> returns the result of \<open>===\<close> on what reading the field gives in
  \<open>dataValues\<close> and in \<open>_previousDataValues\<close> (a read finds the field on the object
  or along its prototypes): \<open>true\<close> exactly when the two values are the same and are
  not \<open>NaN\<close>, or are both zero (\<open>+0\<close> and \<open>-0\<close> are equal); \<open>false\<close> otherwise;
  and where a getter throws, the error of the first read that throws.
\<close>

theorem isImmutable_existing_record:
  assumes "\<not> truthy (isNewRecord modelInstance)"
  shows "(get_prop getter (dataValues modelInstance) field = Inr current
            \<and> get_prop getter (previousDataValues modelInstance) field = Inr previous
          \<longrightarrow> isImmutable getter value validatorArgs field modelInstance
                = Inr (JBool (strict_equals current previous))
              \<and> (isImmutable getter value validatorArgs field modelInstance = Inr (JBool True))
                = ((current = previous \<and> current \<noteq> JNum NaN)
                   \<or> (\<exists>a b. current = JNum a \<and> previous = JNum b \<and> is_zero a \<and> is_zero b))
              \<and> (isImmutable getter value validatorArgs field modelInstance = Inr (JBool False))
                = (\<not> ((current = previous \<and> current \<noteq> JNum NaN)
                   \<or> (\<exists>a b. current = JNum a \<and> previous = JNum b \<and> is_zero a \<and> is_zero b))))
         \<and> (get_prop getter (dataValues modelInstance) field = Inl e
          \<longrightarrow> isImmutable getter value validatorArgs field modelInstance = Inl e)
         \<and> (get_prop getter (dataValues modelInstance) field = Inr current
            \<and> get_prop getter (previousDataValues modelInstance) field = Inl e
          \<longrightarrow> isImmutable getter value validatorArgs field modelInstance = Inl e)"
proof -
  have reads: "isImmutable getter value validatorArgs field modelInstance
      = (case get_prop getter (dataValues modelInstance) field of
           Inl e \<Rightarrow> Inl e
         | Inr current \<Rightarrow>
             (case get_prop getter (previousDataValues modelInstance) field of
                Inl e \<Rightarrow> Inl e
              | Inr previous \<Rightarrow> Inr (JBool (strict_equals current previous))))"
    using assms by (simp add: isImmutable_def)
  show ?thesis
    unfolding strict_equals_iff [symmetric] by (simp add: reads)
qed

theorem isImmutable_existing_record_witness:
  "\<not> truthy (isNewRecord \<lparr>isNewRecord = JBool False,
                dataValues = plain_object [(''name'', Data (JStr ''b''))],
                previousDataValues = plain_object [(''name'', Data (JStr ''a''))]\<rparr>)
   \<and> get_prop example_getter (plain_object [(''name'', Data (JStr ''b''))]) ''name''
       = Inr (JStr ''b'')
   \<and> get_prop example_getter (plain_object [(''name'', Data (JStr ''a''))]) ''name''
       = Inr (JStr ''a'')
   \<and> isImmutable example_getter (JStr ''b'') (JBool True) ''name''
        \<lparr>isNewRecord = JBool False,
         dataValues = plain_object [(''name'', Data (JStr ''b''))],
         previousDataValues = plain_object [(''name'', Data (JStr ''a''))]\<rparr>
       = Inr (JBool False)"
proof -
  have current: "get_prop example_getter (plain_object [(''name'', Data (JStr ''b''))]) ''name''
      = Inr (JStr ''b'')"
    by (simp add: get_prop_def plain_object_def)
  have previous: "get_prop example_getter (plain_object [(''name'', Data (JStr ''a''))]) ''name''
      = Inr (JStr ''a'')"
    by (simp add: get_prop_def plain_object_def)
  show ?thesis
    using isImmutable_existing_record
      [of "\<lparr>isNewRecord = JBool False,
            dataValues = plain_object [(''name'', Data (JStr ''b''))],
            previousDataValues = plain_object [(''name'', Data (JStr ''a''))]\<rparr>"
          example_getter "''name''" "JStr ''b''" "JStr ''a''" "JStr ''b''" "JBool True"]
      current previous
    by simp
qed

text \<open>
  Reads along the prototypes, and the two zeros: a field \<open>constructor\<close> that is
  \<open>undefined\<close> on the object itself differs from the constructor that an object
  without the field inherits; \<open>__proto__\<close> is the same on two plain objects; \<open>-0\<close>
  and \<open>+0\<close> are equal.
\<close>

lemma isImmutable_inherited_field:
  "isImmutable example_getter (JStr ''undefined'') (JBool True) ''constructor''
     \<lparr>isNewRecord = JBool False,
      dataValues = plain_object [(''constructor'', Data JUndefined)],
      previousDataValues = plain_object []\<rparr> = Inr (JBool False)"
  by (simp add: isImmutable_def get_prop_def plain_object_def example_prototype_def)

lemma isImmutable_proto_field:
  "isImmutable example_getter (JStr ''x'') (JBool True) ''__proto__''
     \<lparr>isNewRecord = JBool False,
      dataValues = plain_object [(''name'', Data (JStr ''b''))],
      previousDataValues = plain_object []\<rparr> = Inr (JBool True)"
  by (simp add: isImmutable_def get_prop_def plain_object_def example_prototype_def
      example_getter_def)

lemma isImmutable_zeros:
  "isImmutable example_getter (JStr ''0'') (JBool True) ''balance''
     \<lparr>isNewRecord = JBool False,
      dataValues = plain_object [(''balance'', Data (JNum NegZero))],
      previousDataValues = plain_object [(''balance'', Data (JNum (Fin 0)))]\<rparr>
     = Inr (JBool True)"
  by (simp add: isImmutable_def get_prop_def plain_object_def example_prototype_def
      is_zero_def)

text \<open>
  Claim C2. For a record whose \<open>isNewRecord\<close> flag is \<open>true\<close>, \<open>isImmutable\<close>
  returns \<open>true\<close>, whatever the field name and whatever the current and the previous
  values of the field are.
\<close>

theorem isImmutable_new_record:
  "isNewRecord modelInstance = JBool True \<Longrightarrow>
     isImmutable getter value validatorArgs field modelInstance = Inr (JBool True)"
  by (simp add: isImmutable_def)

theorem isImmutable_new_record_witness:
  "isNewRecord \<lparr>isNewRecord = JBool True,
                dataValues = plain_object [(''name'', Data (JStr ''b''))],
                previousDataValues = plain_object [(''name'', Data (JStr ''a''))]\<rparr>
     = JBool True
   \<and> isImmutable example_getter (JStr ''b'') (JBool True) ''name''
        \<lparr>isNewRecord = JBool True,
         dataValues = plain_object [(''name'', Data (JStr ''b''))],
         previousDataValues = plain_object [(''name'', Data (JStr ''a''))]\<rparr>
       = Inr (JBool True)"
  using isImmutable_new_record
    [of "\<lparr>isNewRecord = JBool True,
          dataValues = plain_object [(''name'', Data (JStr ''b''))],
          previousDataValues = plain_object [(''name'', Data (JStr ''a''))]\<rparr>"
        example_getter "JStr ''b''" "JBool True" "''name''"]
  by simp

section \<open>Properties of the extension predicates\<close>

text \<open>
  Claim C3. \<open>notIn(x, values)\<close> returns the negation of what \<open>isIn(x, values)\<close>
  returns, for every string \<open>x\<close> and every list of values: \<open>false\<close> where \<open>isIn\<close>
  returns \<open>true\<close> and \<open>true\<close> where it returns \<open>false\<close> (and where \<open>isIn\<close> throws,
  \<open>notIn\<close> throws the same error).
\<close>

theorem notIn_negates_isIn:
  "(this_isIn this x values = Inr r \<longrightarrow> notIn this x values = Inr (JBool (\<not> truthy r)))
   \<and> (this_isIn this x values = Inr (JBool b) \<longrightarrow> notIn this x values = Inr (JBool (\<not> b)))
   \<and> (this_isIn this x values = Inl e \<longrightarrow> notIn this x values = Inl e)"
  by (simp add: notIn_def not_result_def js_not_def)

theorem notIn_negates_isIn_witness:
  "this_isIn example_this ''b'' [JStr ''a'', JStr ''b''] = Inr (JBool True)
   \<and> notIn example_this ''b'' [JStr ''a'', JStr ''b''] = Inr (JBool False)
   \<and> this_isIn example_this ''c'' [JStr ''a'', JStr ''b''] = Inr (JBool False)
   \<and> notIn example_this ''c'' [JStr ''a'', JStr ''b''] = Inr (JBool True)"
  using notIn_negates_isIn [of example_this "''b''" "[JStr ''a'', JStr ''b'']" "JBool True" True]
    notIn_negates_isIn [of example_this "''c''" "[JStr ''a'', JStr ''b'']" "JBool False" False]
  by (simp add: example_this_def)

text \<open>
  Claim C4, as it is written, fails. On the malformed pattern \<open>(\<close> both \<open>regex\<close>
  and \<open>notRegex\<close> throw a \<open>SyntaxError\<close>, so neither result is truthy. And on one
  sticky expression \<open>/a/y\<close> and the string \<open>ab\<close>, \<open>regex\<close> returns the match and
  moves \<open>lastIndex\<close> to 1, after which \<open>notRegex\<close> on the same arguments returns
  \<open>true\<close>: both results are truthy.
\<close>

theorem regex_notRegex_not_negations:
  "regex example_engine [] ''a'' (JStr ''('') JUndefined = (Inl SyntaxError, [])
   \<and> notRegex example_this [] ''a'' (JStr ''('') JUndefined = (Inl SyntaxError, [])
   \<and> regex example_engine [RegExpObject ''a'' ''y'' 0] ''ab'' (JObj 0) JUndefined
       = (Inr (JObj 1), [RegExpObject ''a'' ''y'' 1, ArrayObject [JStr ''a'']])
   \<and> truthy (JObj 1)
   \<and> notRegex example_this [RegExpObject ''a'' ''y'' 1, ArrayObject [JStr ''a'']]
         ''ab'' (JObj 0) JUndefined
       = (Inr (JBool True), [RegExpObject ''a'' ''y'' 0, ArrayObject [JStr ''a'']])
   \<and> truthy (JBool True)"
proof -
  have malformed: "regex example_engine [] ''a'' (JStr ''('') JUndefined = (Inl SyntaxError, [])"
    by (simp add: regex_def Object_toString_def builtin_tag_def slice_8_m1_def RegExp_new_def
        flags_of_def unterminated_group_def)
  have first: "regex example_engine [RegExpObject ''a'' ''y'' 0] ''ab'' (JObj 0) JUndefined
      = (Inr (JObj 1), [RegExpObject ''a'' ''y'' 1, ArrayObject [JStr ''a'']])"
    by (simp add: regex_def Object_toString_def builtin_tag_def object_tag_def slice_8_m1_def
        String_match_def plain_pattern_def plain_char_def match_sticky_def)
  have second: "regex example_engine [RegExpObject ''a'' ''y'' 1, ArrayObject [JStr ''a'']]
        ''ab'' (JObj 0) JUndefined
      = (Inr JNull, [RegExpObject ''a'' ''y'' 0, ArrayObject [JStr ''a'']])"
    by (simp add: regex_def Object_toString_def builtin_tag_def object_tag_def slice_8_m1_def
        String_match_def plain_pattern_def plain_char_def match_sticky_def)
  have negated: "notRegex example_this w str pattern modifiers
      = (case regex example_engine w str pattern modifiers of (r, w') \<Rightarrow> (not_result r, w'))"
    for w str pattern modifiers
    by (simp add: notRegex_def example_this_def)
  show ?thesis
    unfolding negated malformed first second by (simp add: not_result_def js_not_def)
qed

text \<open>
  Claim C4, amended. With \<open>this.regex\<close> the extension \<open>regex\<close>, as in the exported
  namespace, and with the same string, pattern and modifiers in the same state: where
  \<open>regex\<close> returns a value, \<open>notRegex\<close> returns the negation of it, so exactly one
  of the two results is truthy, and where \<open>regex\<close> throws, \<open>notRegex\<close> throws the
  same error; both leave the same state. (Calls made one after the other start in
  different states when the pattern is a sticky expression.)
\<close>

theorem regex_notRegex_negations:
  assumes "this_regex this = regex E"
  shows "(regex E w str pattern modifiers = (Inr r, w') \<longrightarrow>
            notRegex this w str pattern modifiers = (Inr (JBool (\<not> truthy r)), w')
            \<and> truthy (JBool (\<not> truthy r)) \<noteq> truthy r)
         \<and> (regex E w str pattern modifiers = (Inl e, w') \<longrightarrow>
            notRegex this w str pattern modifiers = (Inl e, w'))"
  using assms by (simp add: notRegex_def not_result_def js_not_def)

theorem regex_notRegex_negations_witness:
  "this_regex example_this = regex example_engine
   \<and> regex example_engine [] ''abc'' (JStr ''b'') JUndefined
       = (Inr (JObj 1), [RegExpObject ''b'' '''' 0, ArrayObject [JStr ''b'']])
   \<and> notRegex example_this [] ''abc'' (JStr ''b'') JUndefined
       = (Inr (JBool False), [RegExpObject ''b'' '''' 0, ArrayObject [JStr ''b'']])
   \<and> regex example_engine [] ''abc'' (JStr ''x'') JUndefined
       = (Inr JNull, [RegExpObject ''x'' '''' 0])
   \<and> notRegex example_this [] ''abc'' (JStr ''x'') JUndefined
       = (Inr (JBool True), [RegExpObject ''x'' '''' 0])"
proof -
  have this_regex: "this_regex example_this = regex example_engine"
    by (simp add: example_this_def)
  have found: "regex example_engine [] ''abc'' (JStr ''b'') JUndefined
      = (Inr (JObj 1), [RegExpObject ''b'' '''' 0, ArrayObject [JStr ''b'']])"
    by (simp add: regex_def Object_toString_def builtin_tag_def slice_8_m1_def RegExp_new_def
        flags_of_def unterminated_group_def plain_pattern_def plain_char_def
        String_match_def match_plain_def)
  have missed: "regex example_engine [] ''abc'' (JStr ''x'') JUndefined
      = (Inr JNull, [RegExpObject ''x'' '''' 0])"
    by (simp add: regex_def Object_toString_def builtin_tag_def slice_8_m1_def RegExp_new_def
        flags_of_def unterminated_group_def plain_pattern_def plain_char_def
        String_match_def match_plain_def)
  show ?thesis
    using regex_notRegex_negations [OF this_regex, of "[]" "''abc''" "JStr ''b''" JUndefined
        "JObj 1" "[RegExpObject ''b'' '''' 0, ArrayObject [JStr ''b'']]"]
      regex_notRegex_negations [OF this_regex, of "[]" "''abc''" "JStr ''x''" JUndefined
        JNull "[RegExpObject ''x'' '''' 0]"]
      this_regex found missed
    by simp
qed

text \<open>
  Claim C8. For a string that \<open>Number.parseFloat\<close> turns into \<open>NaN\<close> and for
  every bound, \<open>min\<close> and \<open>max\<close> both return \<open>true\<close>.
\<close>

theorem min_max_not_a_number:
  "isNaN (parseFloat E str) \<Longrightarrow> min_v E str val = JBool True \<and> max_v E str val = JBool True"
  by (simp add: min_v_def max_v_def Let_def)

theorem min_max_not_a_number_witness:
  "isNaN (parseFloat example_engine ''abc'')
   \<and> min_v example_engine ''abc'' (Fin 3) = JBool True
   \<and> max_v example_engine ''abc'' (Fin 3) = JBool True"
proof -
  have nan: "isNaN (parseFloat example_engine ''abc'')"
    by (simp add: isNaN_def parseFloat_def is_white_space_def StrDecimalLiteral_prefix_def
        unsigned_prefix_def after_sign_def sign_prefix_def digits_def after_digits_def
        is_digit_def)
  show ?thesis
    using nan min_max_not_a_number [OF nan, of "Fin 3"] by simp
qed

text \<open>
  Claim C9. \<open>contains(str, elem)\<close> returns \<open>false\<close> for a falsy \<open>elem\<close>, the
  empty string among them, although \<open>str.includes("")\<close> holds of every string; and
  with \<open>this.contains\<close> the extension \<open>contains\<close>, \<open>notContains(str, "")\<close> returns
  \<open>true\<close> for every string.
\<close>

theorem contains_falsy_elem:
  "(\<not> truthy elem \<longrightarrow> contains E str elem = Inr (JBool False))
   \<and> contains E str (JStr '''') = Inr (JBool False)
   \<and> str_includes str ''''
   \<and> (this_contains this = contains E \<longrightarrow> notContains this str (JStr '''') = Inr (JBool True))"
proof -
  have "str_includes str ''''"
    by (cases str) simp_all
  then show ?thesis
    by (simp add: contains_def notContains_def not_result_def js_not_def)
qed

theorem contains_falsy_elem_witness:
  "\<not> truthy JNull
   \<and> contains example_engine ''abc'' JNull = Inr (JBool False)
   \<and> this_contains example_this = contains example_engine
   \<and> notContains example_this ''abc'' (JStr '''') = Inr (JBool True)"
  using contains_falsy_elem [of JNull example_engine "''abc''" example_this]
  by (simp add: example_this_def)

section \<open>Properties of the date predicate\<close>

text \<open>The three steps of \<open>isDate\<close> on the first of January 2024.\<close>

lemmas field_defs = is_field_def field_value_def is_digit_def decimal_value_def digit_value_def

lemmas calendar_defs = date_exists_def days_in_month_def is_leap_year_def days_from_civil_def
  march_year_def days_before_march_year_def day_of_march_year_def ms_per_day_def

lemma Date_parse_2024: "Date_parse E ''2024-01-01'' = Fin 1704067200000"
  by (simp add: Date_parse_def iso_calendar_date_def is_calendar_date_def field_defs
      calendar_defs)

lemma iso_string_2024: "iso_string 1704067200000 = ''2024-01-01T00:00:00.000Z''"
  by (simp add: iso_string_def iso_year_def pad2_def pad3_def pad4_def digit_of_def
      digit_char_def year_from_days_def month_from_days_def date_from_days_def
      month_index_def day_of_year_def year_of_era_def day_of_era_def era_of_def
      ms_per_day_def)

lemma moment_isValid_2024: "moment_isValid E ''2024-01-01T00:00:00.000Z''"
  by (simp add: moment_isValid_def is_iso_instant_def field_defs calendar_defs)

text \<open>
  Claim C6. \<open>isDate\<close> returns \<open>false\<close> whenever \<open>Date.parse\<close> of the input is
  \<open>NaN\<close>.
\<close>

theorem isDate_unparsable:
  "isNaN (Date_parse E dateString) \<Longrightarrow> isDate E dateString = Inr (JBool False)"
  by (simp add: isDate_def Let_def)

theorem isDate_unparsable_witness:
  "isNaN (Date_parse example_engine ''tomorrow'')
   \<and> isDate example_engine ''tomorrow'' = Inr (JBool False)"
proof -
  have nan: "isNaN (Date_parse example_engine ''tomorrow'')"
    by (simp add: isNaN_def Date_parse_def iso_calendar_date_def is_calendar_date_def
        example_engine_def)
  show ?thesis
    using nan isDate_unparsable [OF nan] by simp
qed

text \<open>
  Claim C7. \<open>isDate("2024-01-01")\<close> returns \<open>true\<close> and \<open>isDate("not-a-date")\<close>
  returns \<open>false\<close>, on every engine.
\<close>

theorem isDate_examples:
  "isDate E ''2024-01-01'' = Inr (JBool True) \<and> isDate E ''not-a-date'' = Inr (JBool False)"
proof -
  have parsed: "Date_parse E ''2024-01-01'' = Fin 1704067200000"
    by (simp add: Date_parse_2024)
  have "isDate E ''2024-01-01'' = Inr (JBool True)"
    by (simp add: isDate_def parsed isNaN_def Date_new_def toISOString_def
        iso_string_2024 moment_isValid_2024)
  moreover have "isDate E ''not-a-date'' = Inr (JBool False)"
    by (simp add: isDate_def Date_parse_def iso_calendar_date_def is_calendar_date_def
        is_digit_def isNaN_def)
  ultimately show ?thesis by simp
qed

theorem isDate_examples_witness:
  "isDate example_engine ''2024-01-01'' = Inr (JBool True)
   \<and> isDate example_engine ''not-a-date'' = Inr (JBool False)"
  using isDate_examples [of example_engine] by simp

section \<open>Properties of the initialisation\<close>

text \<open>Reading a property after an assignment, and what an assignment leaves alone.\<close>

lemma map_of_set_prop: "map_of (set_prop ob key v) = (map_of ob)(key \<mapsto> v)"
  by (induction ob key v rule: set_prop.induct) auto

lemma obj_at_heap_set:
  "obj_at (heap_set h a key v) b
     = (if b = a \<and> a < length h then set_prop (obj_at h a) key v else obj_at h b)"
  by (auto simp: obj_at_def heap_set_def)

lemma heap_get_heap_set:
  "heap_get (heap_set h a key v) b k
     = (if b = a \<and> a < length h \<and> k = key then v else heap_get h b k)"
  by (simp add: heap_get_def obj_at_heap_set map_of_set_prop own_value_def)

lemma length_heap_set: "length (heap_set h a key v) = length h"
  by (simp add: heap_set_def)

lemma take_heap_set: "n \<le> a \<Longrightarrow> take n (heap_set h a key v) = take n h"
  by (simp add: heap_set_def)

lemma validator_assign: "validator (assign_validator key v st) = validator st"
  by (simp add: assign_validator_def)

lemma extensions_assign: "extensions (assign_validator key v st) = extensions st"
  by (simp add: assign_validator_def)

lemma heap_assign:
  "heap (assign_validator key v st) = heap_set (heap st) (validator st) key v"
  by (simp add: assign_validator_def)

lemmas assign_simps = validator_assign extensions_assign heap_assign

text \<open>The loop over \<open>extensions\<close> is sixteen assignments to \<open>validator\<close>.\<close>

lemma install_extensions_unfold:
  assumes "obj_at (heap st) (extensions st) = extensions_object"
  shows "install_extensions st
     = assign_validator ''is'' (JFun Ext_is)
        (assign_validator ''notContains'' (JFun Ext_notContains)
        (assign_validator ''contains'' (JFun Ext_contains)
        (assign_validator ''not'' (JFun Ext_not)
        (assign_validator ''max'' (JFun Ext_max)
        (assign_validator ''min'' (JFun Ext_min)
        (assign_validator ''isDecimal'' (JFun Ext_isDecimal)
        (assign_validator ''notRegex'' (JFun Ext_notRegex)
        (assign_validator ''regex'' (JFun Ext_regex)
        (assign_validator ''notIn'' (JFun Ext_notIn)
        (assign_validator ''isIPv4'' (JFun Ext_isIPv4)
        (assign_validator ''isIPv6'' (JFun Ext_isIPv6)
        (assign_validator ''isUrl'' (JFun Ext_isUrl)
        (assign_validator ''len'' (JFun Ext_len)
        (assign_validator ''notEmpty'' (JFun Ext_notEmpty)
        (assign_validator ''extend'' (JFun Ext_extend) st)))))))))))))))"
  by (simp add: install_extensions_def assms forEach_def extensions_object_def)

lemma patch_frame:
  assumes "validator st0 < length (heap st0)" and "extensions st0 \<noteq> validator st0"
    and "obj_at (heap st0) (extensions st0) = extensions_object"
  shows "validator (patch_validator st0) = validator st0"
    and "take (validator st0) (heap (patch_validator st0)) = take (validator st0) (heap st0)"
proof -
  have ext: "obj_at (heap (assign_validator ''notNull'' (JFun Fn_notNull)
             (assign_validator ''isImmutable'' (JFun Fn_isImmutable) st0)))
        (extensions (assign_validator ''notNull'' (JFun Fn_notNull)
             (assign_validator ''isImmutable'' (JFun Fn_isImmutable) st0))) = extensions_object"
    using assms by (simp add: assign_simps obj_at_heap_set)
  show "validator (patch_validator st0) = validator st0"
    by (simp add: patch_validator_def install_extensions_unfold [OF ext] map_isNull_def assign_simps)
  show "take (validator st0) (heap (patch_validator st0)) = take (validator st0) (heap st0)"
    by (simp add: patch_validator_def install_extensions_unfold [OF ext] map_isNull_def assign_simps take_heap_set)
qed

lemma patch_get:
  assumes "validator st0 < length (heap st0)" and "extensions st0 \<noteq> validator st0"
    and "obj_at (heap st0) (extensions st0) = extensions_object"
  shows "heap_get (heap (patch_validator st0)) (validator st0) key
     = (if key = ''isDate'' then JFun Fn_isDate
        else if key = ''isNull'' then heap_get (heap st0) (validator st0) ''isEmpty''
        else (case map_of extensions_object key of
                Some f \<Rightarrow> f
              | None \<Rightarrow> if key = ''notNull'' then JFun Fn_notNull
                        else if key = ''isImmutable'' then JFun Fn_isImmutable
                        else heap_get (heap st0) (validator st0) key))"
proof -
  have ext: "obj_at (heap (assign_validator ''notNull'' (JFun Fn_notNull)
             (assign_validator ''isImmutable'' (JFun Fn_isImmutable) st0)))
        (extensions (assign_validator ''notNull'' (JFun Fn_notNull)
             (assign_validator ''isImmutable'' (JFun Fn_isImmutable) st0))) = extensions_object"
    using assms by (simp add: assign_simps obj_at_heap_set)
  show ?thesis
    using assms(1)
    by (simp add: patch_validator_def install_extensions_unfold [OF ext] map_isNull_def assign_simps
        heap_get_heap_set length_heap_set extensions_object_def)
qed

text \<open>The clone of the root is the first of the new objects.\<close>

lemma reach_steps_Cons: "\<exists>xs. (reach_step h ^^ n) [a] = a # xs"
proof (induction n)
  case 0
  then show ?case by simp
next
  case (Suc n)
  then obtain xs where "(reach_step h ^^ n) [a] = a # xs" by blast
  then have "(reach_step h ^^ Suc n) [a] = reach_step h (a # xs)" by simp
  also have "\<dots> = a # tl (reach_step h (a # xs))" by (simp add: reach_step_def)
  finally show ?case by blast
qed

lemma reachable_Cons: "\<exists>xs. reachable h a = a # xs"
  by (simp add: reachable_def reach_steps_Cons)

lemma snd_cloneDeep: "snd (cloneDeep h a) = length h"
  by (simp add: cloneDeep_def)

lemma take_cloneDeep: "take (length h) (fst (cloneDeep h a)) = h"
  by (simp add: cloneDeep_def)

lemma length_cloneDeep: "length h < length (fst (cloneDeep h a))"
  using reachable_Cons [of h a] by (auto simp: cloneDeep_def)

lemma obj_at_cloneDeep:
  "obj_at (fst (cloneDeep h a)) (length h)
     = clone_object (length h) (reachable h a) (obj_at h a)"
  using reachable_Cons [of h a] by (auto simp: cloneDeep_def obj_at_def nth_append)

lemma map_of_clone_object:
  "map_of (clone_object base rs ob) key = map_option (clone_value base rs) (map_of ob key)"
  by (induction ob) (auto simp: clone_object_def)

lemma heap_get_cloneDeep:
  "heap_get (fst (cloneDeep h a)) (length h) key
     = clone_value (length h) (reachable h a) (heap_get h a key)"
  by (simp add: heap_get_def obj_at_cloneDeep map_of_clone_object own_value_def
      clone_value_def split: option.splits)

text \<open>The state in which the assignments to \<open>validator\<close> start.\<close>

lemma loaded_state:
  shows validator_loaded: "validator (define_extensions (load_validator h lib)) = length h"
    and extensions_loaded:
      "extensions (define_extensions (load_validator h lib)) = length (fst (cloneDeep h lib))"
    and heap_loaded:
      "heap (define_extensions (load_validator h lib))
         = fst (cloneDeep h lib) @ [extensions_object]"
  by (simp_all add: define_extensions_def load_validator_def snd_cloneDeep)

lemma loaded_ready:
  shows "validator (define_extensions (load_validator h lib))
           < length (heap (define_extensions (load_validator h lib)))"
    and "extensions (define_extensions (load_validator h lib))
           \<noteq> validator (define_extensions (load_validator h lib))"
    and "obj_at (heap (define_extensions (load_validator h lib)))
           (extensions (define_extensions (load_validator h lib))) = extensions_object"
  using length_cloneDeep [of h lib] by (simp_all add: loaded_state obj_at_def)

lemma validator_init: "validator (init_module h lib) = length h"
  by (simp add: init_module_def patch_frame(1) [OF loaded_ready] validator_loaded)

lemma take_init: "take (length h) (heap (init_module h lib)) = h"
  using patch_frame(2) [OF loaded_ready, of h lib] length_cloneDeep [of h lib]
  by (simp add: init_module_def loaded_state take_cloneDeep)

lemma heap_get_loaded:
  "heap_get (heap (define_extensions (load_validator h lib))) (length h) key
     = clone_value (length h) (reachable h lib) (heap_get h lib key)"
  using length_cloneDeep [of h lib] heap_get_cloneDeep [of h lib key]
  by (simp add: heap_loaded heap_get_def obj_at_def nth_append)

lemma heap_get_init:
  "heap_get (heap (init_module h lib)) (length h) key
     = (if key = ''isDate'' then JFun Fn_isDate
        else if key = ''isNull''
          then clone_value (length h) (reachable h lib) (heap_get h lib ''isEmpty'')
        else (case map_of extensions_object key of
                Some f \<Rightarrow> f
              | None \<Rightarrow> if key = ''notNull'' then JFun Fn_notNull
                        else if key = ''isImmutable'' then JFun Fn_isImmutable
                        else clone_value (length h) (reachable h lib) (heap_get h lib key)))"
  using patch_get [OF loaded_ready, of h lib key]
  unfolding init_module_def validator_loaded heap_get_loaded .

lemma obj_at_init:
  assumes "a < length h"
  shows "obj_at (heap (init_module h lib)) a = obj_at h a"
proof -
  have "length h \<le> length (heap (init_module h lib))"
    using take_init [of h lib] by (metis length_take min.cobounded1)
  moreover have "take (length h) (heap (init_module h lib)) ! a = h ! a"
    by (simp only: take_init)
  ultimately show ?thesis
    using assms by (simp add: obj_at_def)
qed

text \<open>The objects other than \<open>validator\<close> are what they were before the assignments.\<close>

lemma patch_other:
  assumes "validator st0 < length (heap st0)" and "extensions st0 \<noteq> validator st0"
    and "obj_at (heap st0) (extensions st0) = extensions_object"
    and "a \<noteq> validator st0"
  shows "obj_at (heap (patch_validator st0)) a = obj_at (heap st0) a"
proof -
  have ext: "obj_at (heap (assign_validator ''notNull'' (JFun Fn_notNull)
             (assign_validator ''isImmutable'' (JFun Fn_isImmutable) st0)))
        (extensions (assign_validator ''notNull'' (JFun Fn_notNull)
             (assign_validator ''isImmutable'' (JFun Fn_isImmutable) st0))) = extensions_object"
    using assms by (simp add: assign_simps obj_at_heap_set)
  show ?thesis
    using assms(4)
    by (simp add: patch_validator_def install_extensions_unfold [OF ext] map_isNull_def
        assign_simps obj_at_heap_set)
qed

lemma index_of_nth: "a \<in> set xs \<Longrightarrow> index_of a xs < length xs \<and> xs ! index_of a xs = a"
  by (induction xs) auto

lemma index_of_pos: "a \<noteq> x \<Longrightarrow> 0 < index_of a (x # xs)"
  by simp

text \<open>The copy of an object that the library's namespace reaches.\<close>

lemma obj_at_init_copy:
  assumes "a \<in> set (reachable h lib)" and "a \<noteq> lib"
  shows "obj_at (heap (init_module h lib)) (length h + index_of a (reachable h lib))
           = clone_object (length h) (reachable h lib) (obj_at h a)"
proof -
  obtain xs where rs: "reachable h lib = lib # xs"
    using reachable_Cons [of h lib] by blast
  have pos: "0 < index_of a (reachable h lib)"
    using assms(2) by (simp add: rs)
  have less: "index_of a (reachable h lib) < length (reachable h lib)"
    and nth: "reachable h lib ! index_of a (reachable h lib) = a"
    using index_of_nth [OF assms(1)] by simp_all
  have other: "length h + index_of a (reachable h lib)
      \<noteq> validator (define_extensions (load_validator h lib))"
    using pos by (simp add: validator_loaded)
  have "obj_at (heap (init_module h lib)) (length h + index_of a (reachable h lib))
      = obj_at (heap (define_extensions (load_validator h lib)))
          (length h + index_of a (reachable h lib))"
    unfolding init_module_def by (rule patch_other [OF loaded_ready other])
  also have "\<dots> = clone_object (length h) (reachable h lib) (obj_at h a)"
    using less nth by (simp add: heap_loaded cloneDeep_def obj_at_def nth_append)
  finally show ?thesis .
qed

text \<open>
  The rounds collect every object that the start reaches: a round that adds nothing
  has the references of its objects among them, a round that adds something makes the
  collection larger, and a heap of \<open>n\<close> objects has no room for more than \<open>n\<close>.
\<close>

lemma set_reach_step:
  "set (reach_step h seen) = set seen \<union> (\<Union>a\<in>set seen. set (refs_of (obj_at h a)))"
  by (auto simp: reach_step_def)

lemma refs_in_heap:
  assumes "no_dangling h"
  shows "set (refs_of (obj_at h a)) \<subseteq> {..<length h}"
proof (cases "a < length h")
  case True
  then have "h ! a \<in> set h" by simp
  with assms have "list_all (\<lambda>b. b < length h) (refs_of (h ! a))"
    by (simp add: no_dangling_def list_all_iff)
  with True show ?thesis by (auto simp: obj_at_def list_all_iff)
next
  case False
  then show ?thesis by (simp add: obj_at_def refs_of_def)
qed

lemma reach_in_heap:
  assumes "no_dangling h" and "start < length h"
  shows "set ((reach_step h ^^ n) [start]) \<subseteq> {..<length h}"
proof (induction n)
  case 0
  with assms(2) show ?case by simp
next
  case (Suc n)
  with refs_in_heap [OF assms(1)] show ?case
    by (auto simp: set_reach_step)
qed

lemma reach_grows:
  assumes "\<not> (\<Union>a\<in>set ((reach_step h ^^ n) [start]). set (refs_of (obj_at h a)))
      \<subseteq> set ((reach_step h ^^ n) [start])"
  shows "n < card (set ((reach_step h ^^ n) [start]))"
  using assms
proof (induction n)
  case 0
  then show ?case by simp
next
  case (Suc n)
  let ?S = "set ((reach_step h ^^ n) [start])"
  let ?R = "\<Union>a\<in>?S. set (refs_of (obj_at h a))"
  have next_round: "set ((reach_step h ^^ Suc n) [start]) = ?S \<union> ?R"
    by (simp add: set_reach_step)
  have open_before: "\<not> ?R \<subseteq> ?S"
  proof
    assume closed: "?R \<subseteq> ?S"
    then have "set ((reach_step h ^^ Suc n) [start]) = ?S"
      using next_round by blast
    with closed Suc.prems show False by simp
  qed
  then have "n < card ?S" by (rule Suc.IH)
  moreover have "?S \<subset> ?S \<union> ?R"
    using open_before by blast
  then have "card ?S < card (?S \<union> ?R)"
    by (intro psubset_card_mono) simp_all
  ultimately show ?case
    using next_round by simp
qed

lemma reachable_closed:
  assumes "no_dangling h" and "start < length h" and "b \<in> set (reachable h start)"
  shows "set (refs_of (obj_at h b)) \<subseteq> set (reachable h start)"
proof (rule ccontr)
  assume "\<not> ?thesis"
  with assms(3) have "\<not> (\<Union>a\<in>set ((reach_step h ^^ length h) [start]).
      set (refs_of (obj_at h a))) \<subseteq> set ((reach_step h ^^ length h) [start])"
    unfolding reachable_def by blast
  then have "length h < card (set ((reach_step h ^^ length h) [start]))"
    by (rule reach_grows)
  moreover have "card (set ((reach_step h ^^ length h) [start])) \<le> card {..<length h}"
    by (intro card_mono reach_in_heap [OF assms(1,2)]) simp
  ultimately show False by simp
qed

text \<open>
  Claim C5, as it is written, fails: \<open>validator\<close> is a deep clone. With the
  library's namespace at address 0, the initialisation leaves that object as it was:
  it has no \<open>isImmutable\<close> and no \<open>notIn\<close>, and its \<open>isDate\<close> is the library's
  own function, not the override. The namespace that carries the predicates and the
  override is the new object at address 2.
\<close>

theorem shared_namespace_not_patched:
  "obj_at (heap (init_module library_heap 0)) 0 = obj_at library_heap 0
   \<and> heap_get (heap (init_module library_heap 0)) 0 ''isImmutable'' = JUndefined
   \<and> heap_get (heap (init_module library_heap 0)) 0 ''notIn'' = JUndefined
   \<and> heap_get (heap (init_module library_heap 0)) 0 ''isDate'' = JFun (Lib 2)
   \<and> validator (init_module library_heap 0) = 2
   \<and> heap_get (heap (init_module library_heap 0)) 2 ''isImmutable'' = JFun Fn_isImmutable
   \<and> heap_get (heap (init_module library_heap 0)) 2 ''notIn'' = JFun Ext_notIn
   \<and> heap_get (heap (init_module library_heap 0)) 2 ''isDate'' = JFun Fn_isDate"
proof -
  have len: "length library_heap = 2"
    by (simp add: library_heap_def)
  have unchanged: "obj_at (heap (init_module library_heap 0)) 0 = obj_at library_heap 0"
    by (rule obj_at_init) (simp add: len)
  then have shared: "heap_get (heap (init_module library_heap 0)) 0 key
      = heap_get library_heap 0 key" for key
    by (simp add: heap_get_def)
  have lib: "heap_get library_heap 0 ''isImmutable'' = JUndefined"
    "heap_get library_heap 0 ''notIn'' = JUndefined"
    "heap_get library_heap 0 ''isDate'' = JFun (Lib 2)"
    by (simp_all add: heap_get_def obj_at_def library_heap_def own_value_def)
  have "heap_get (heap (init_module library_heap 0)) (length library_heap) ''isImmutable''
          = JFun Fn_isImmutable"
    "heap_get (heap (init_module library_heap 0)) (length library_heap) ''notIn''
          = JFun Ext_notIn"
    "heap_get (heap (init_module library_heap 0)) (length library_heap) ''isDate''
          = JFun Fn_isDate"
    by (simp_all add: heap_get_init extensions_object_def)
  then show ?thesis
    using validator_init [of library_heap 0] unchanged by (simp add: len shared lib)
qed

text \<open>
  Claim C5, amended. The initialisation installs the predicates on a private deep
  clone of the library's namespace. The exported \<open>validator\<close> is a new object, other
  than the shared namespace \<open>lib\<close>. It carries every member of \<open>extensions\<close> under
  its key, and \<open>isImmutable\<close>, \<open>notNull\<close> and \<open>isDate\<close>; its \<open>isNull\<close> is the
  clone of the library's \<open>isEmpty\<close>; and under every other key it holds the clone of
  what the library's namespace holds: the same function or primitive value, and for
  an object the copy of it, a new object with the clones of that object's members.
  The shared namespace, like every object that existed before, is what it was.
\<close>

theorem validator_is_patched_clone:
  assumes "lib < length h"
  shows "validator (init_module h lib) \<noteq> lib
         \<and> lib \<in> set (reachable h lib)
         \<and> validator (init_module h lib) = length h + index_of lib (reachable h lib)
         \<and> obj_at (heap (init_module h lib)) lib = obj_at h lib
         \<and> take (length h) (heap (init_module h lib)) = h
         \<and> list_all (\<lambda>(key, f).
               heap_get (heap (init_module h lib)) (validator (init_module h lib)) key = f)
             extensions_object
         \<and> heap_get (heap (init_module h lib)) (validator (init_module h lib)) ''isImmutable''
             = JFun Fn_isImmutable
         \<and> heap_get (heap (init_module h lib)) (validator (init_module h lib)) ''notNull''
             = JFun Fn_notNull
         \<and> heap_get (heap (init_module h lib)) (validator (init_module h lib)) ''isDate''
             = JFun Fn_isDate
         \<and> heap_get (heap (init_module h lib)) (validator (init_module h lib)) ''isNull''
             = heap_get (heap (init_module h lib)) (validator (init_module h lib)) ''isEmpty''
         \<and> (key \<notin> set (map fst extensions_object)
              \<and> key \<notin> set [''isImmutable'', ''notNull'', ''isNull'', ''isDate'']
              \<and> \<not> is_reference (heap_get h lib key)
            \<longrightarrow> heap_get (heap (init_module h lib)) (validator (init_module h lib)) key
                  = heap_get h lib key)
         \<and> (key \<notin> set (map fst extensions_object)
              \<and> key \<notin> set [''isImmutable'', ''notNull'', ''isNull'', ''isDate'']
              \<and> heap_get h lib key = JObj a
            \<longrightarrow> heap_get (heap (init_module h lib)) (validator (init_module h lib)) key
                  = JObj (length h + index_of a (reachable h lib)))
         \<and> (b \<in> set (reachable h lib) \<and> b \<noteq> lib
            \<longrightarrow> obj_at (heap (init_module h lib)) (length h + index_of b (reachable h lib))
                  = clone_object (length h) (reachable h lib) (obj_at h b))
         \<and> (no_dangling h \<and> b \<in> set (reachable h lib)
            \<longrightarrow> list_all (\<lambda>c. c \<in> set (reachable h lib)) (refs_of (obj_at h b)))"
proof -
  have "validator (init_module h lib) \<noteq> lib"
    using assms by (simp add: validator_init)
  moreover have "lib \<in> set (reachable h lib)"
    and "validator (init_module h lib) = length h + index_of lib (reachable h lib)"
    using reachable_Cons [of h lib] by (auto simp: validator_init)
  moreover have "obj_at (heap (init_module h lib)) lib = obj_at h lib"
    using assms by (rule obj_at_init)
  moreover have "list_all (\<lambda>(key, f).
      heap_get (heap (init_module h lib)) (validator (init_module h lib)) key = f)
    extensions_object"
    by (simp add: validator_init heap_get_init extensions_object_def)
  moreover have
    "heap_get (heap (init_module h lib)) (validator (init_module h lib)) ''isImmutable''
       = JFun Fn_isImmutable"
    "heap_get (heap (init_module h lib)) (validator (init_module h lib)) ''notNull''
       = JFun Fn_notNull"
    "heap_get (heap (init_module h lib)) (validator (init_module h lib)) ''isDate''
       = JFun Fn_isDate"
    "heap_get (heap (init_module h lib)) (validator (init_module h lib)) ''isNull''
       = heap_get (heap (init_module h lib)) (validator (init_module h lib)) ''isEmpty''"
    by (simp_all add: validator_init heap_get_init extensions_object_def)
  moreover have member: "heap_get (heap (init_module h lib)) (validator (init_module h lib)) key
      = clone_value (length h) (reachable h lib) (heap_get h lib key)"
    if "key \<notin> set (map fst extensions_object)"
      and "key \<notin> set [''isImmutable'', ''notNull'', ''isNull'', ''isDate'']"
  proof -
    have "map_of extensions_object key = None"
      using that(1) by (simp add: map_of_eq_None_iff)
    then show ?thesis
      using that(2) by (simp add: validator_init heap_get_init)
  qed
  moreover have "clone_value (length h) (reachable h lib) v = v" if "\<not> is_reference v" for v
    using that by (cases v) (simp_all add: clone_value_def is_reference_def)
  moreover have "obj_at (heap (init_module h lib)) (length h + index_of b (reachable h lib))
      = clone_object (length h) (reachable h lib) (obj_at h b)"
    if "b \<in> set (reachable h lib)" and "b \<noteq> lib"
    using that by (rule obj_at_init_copy)
  moreover have "list_all (\<lambda>c. c \<in> set (reachable h lib)) (refs_of (obj_at h b))"
    if "no_dangling h" and "b \<in> set (reachable h lib)"
    using reachable_closed [OF that(1) assms that(2)] by (simp add: list_all_iff subset_iff)
  ultimately show ?thesis
    by (simp add: take_init clone_value_def)
qed

theorem validator_is_patched_clone_witness:
  "(0::nat) < length library_heap
   \<and> validator (init_module library_heap 0) \<noteq> 0
   \<and> obj_at (heap (init_module library_heap 0)) 0 = obj_at library_heap 0
   \<and> heap_get (heap (init_module library_heap 0)) (validator (init_module library_heap 0))
       ''isDate'' = JFun Fn_isDate
   \<and> ''isIn'' \<notin> set (map fst extensions_object)
   \<and> ''isIn'' \<notin> set [''isImmutable'', ''notNull'', ''isNull'', ''isDate'']
   \<and> \<not> is_reference (heap_get library_heap 0 ''isIn'')
   \<and> heap_get (heap (init_module library_heap 0)) (validator (init_module library_heap 0))
       ''isIn'' = JFun (Lib 1)
   \<and> reachable library_heap 0 = [0, 1]
   \<and> no_dangling library_heap
   \<and> heap_get library_heap 0 ''locales'' = JObj 1
   \<and> heap_get (heap (init_module library_heap 0)) (validator (init_module library_heap 0))
       ''locales'' = JObj 3
   \<and> obj_at (heap (init_module library_heap 0)) 3 = [(''0'', JStr ''en-US'')]"
proof -
  have lib: "(0::nat) < length library_heap"
    by (simp add: library_heap_def)
  have len: "length library_heap = 2"
    by (simp add: library_heap_def)
  have rs: "reachable library_heap 0 = [0, 1]"
    by (simp add: reachable_def library_heap_def reach_step_def obj_at_def refs_of_def
        numeral_2_eq_2)
  have wf: "no_dangling library_heap"
    by (simp add: no_dangling_def library_heap_def refs_of_def)
  have isIn: "heap_get library_heap 0 ''isIn'' = JFun (Lib 1)"
    and locales: "heap_get library_heap 0 ''locales'' = JObj 1"
    by (simp_all add: heap_get_def obj_at_def library_heap_def own_value_def)
  have keys: "''isIn'' \<notin> set (map fst extensions_object)"
    "''isIn'' \<notin> set [''isImmutable'', ''notNull'', ''isNull'', ''isDate'']"
    "''locales'' \<notin> set (map fst extensions_object)"
    "''locales'' \<notin> set [''isImmutable'', ''notNull'', ''isNull'', ''isDate'']"
    by (simp_all add: extensions_object_def)
  have copy: "clone_object 2 [0, 1] (obj_at library_heap 1) = [(''0'', JStr ''en-US'')]"
    by (simp add: obj_at_def library_heap_def clone_object_def clone_value_def)
  have index: "index_of (1::nat) [0, 1] = 1"
    by simp
  note fact = validator_is_patched_clone [OF lib, of "''isIn''" 1 1]
  note fact' = validator_is_patched_clone [OF lib, of "''locales''" 1 1]
  have not_ref: "\<not> is_reference (heap_get library_heap 0 ''isIn'')"
    by (simp add: isIn is_reference_def)
  have "validator (init_module library_heap 0) \<noteq> 0"
    and "obj_at (heap (init_module library_heap 0)) 0 = obj_at library_heap 0"
    and "heap_get (heap (init_module library_heap 0)) (validator (init_module library_heap 0))
       ''isDate'' = JFun Fn_isDate"
    using fact by blast+
  moreover have "heap_get (heap (init_module library_heap 0))
      (validator (init_module library_heap 0)) ''isIn'' = JFun (Lib 1)"
  proof -
    have "heap_get (heap (init_module library_heap 0))
        (validator (init_module library_heap 0)) ''isIn'' = heap_get library_heap 0 ''isIn''"
      using fact keys(1,2) not_ref by blast
    then show ?thesis
      by (simp only: isIn)
  qed
  moreover have "heap_get (heap (init_module library_heap 0))
      (validator (init_module library_heap 0)) ''locales'' = JObj 3"
  proof -
    have "heap_get (heap (init_module library_heap 0))
        (validator (init_module library_heap 0)) ''locales''
        = JObj (length library_heap + index_of 1 (reachable library_heap 0))"
      using fact' keys(3,4) locales by blast
    then show ?thesis
      unfolding rs len index by simp
  qed
  moreover have "obj_at (heap (init_module library_heap 0)) 3 = [(''0'', JStr ''en-US'')]"
  proof -
    have "(1::nat) \<in> set (reachable library_heap 0)" and "(1::nat) \<noteq> 0"
      by (simp_all add: rs)
    then have "obj_at (heap (init_module library_heap 0))
        (length library_heap + index_of 1 (reachable library_heap 0))
        = clone_object (length library_heap) (reachable library_heap 0) (obj_at library_heap 1)"
      using fact' by blast
    then show ?thesis
      unfolding rs len index copy by simp
  qed
  ultimately show ?thesis
    using lib keys(1,2) not_ref rs wf locales by simp
qed

text \<open>
  Claim C10. After the initialisation \<open>validator.isNull\<close> is the function that
  \<open>validator.isEmpty\<close> is (the library's \<open>isEmpty\<close>, where that is a function), so a
  call of \<open>isNull\<close> does what the same call of \<open>isEmpty\<close> does; and \<open>notNull\<close>
  returns \<open>true\<close> exactly for an argument that is neither \<open>null\<close> nor \<open>undefined\<close>.
\<close>

theorem isNull_is_isEmpty:
  "heap_get (heap (init_module h lib)) (validator (init_module h lib)) ''isNull''
     = heap_get (heap (init_module h lib)) (validator (init_module h lib)) ''isEmpty''
   \<and> call_method sem (heap (init_module h lib)) (validator (init_module h lib)) ''isNull'' args
     = call_method sem (heap (init_module h lib)) (validator (init_module h lib)) ''isEmpty'' args
   \<and> (heap_get h lib ''isEmpty'' = JFun f \<longrightarrow>
        heap_get (heap (init_module h lib)) (validator (init_module h lib)) ''isNull'' = JFun f)
   \<and> (notNull val = JBool True) = (val \<noteq> JNull \<and> val \<noteq> JUndefined)
   \<and> (notNull val = JBool False) = (val = JNull \<or> val = JUndefined)"
proof -
  have same: "heap_get (heap (init_module h lib)) (validator (init_module h lib)) ''isNull''
      = heap_get (heap (init_module h lib)) (validator (init_module h lib)) ''isEmpty''"
    by (simp add: validator_init heap_get_init extensions_object_def)
  have lib_fun: "heap_get (heap (init_module h lib)) (validator (init_module h lib)) ''isNull''
      = JFun f" if "heap_get h lib ''isEmpty'' = JFun f"
    using that by (simp add: validator_init heap_get_init clone_value_def)
  have null: "strict_equals val JNull = (val = JNull)"
    by (cases val) simp_all
  have undefined: "strict_equals val JUndefined = (val = JUndefined)"
    by (cases val) simp_all
  show ?thesis
    using same lib_fun by (auto simp: call_method_def notNull_def null undefined)
qed

theorem isNull_is_isEmpty_witness:
  "heap_get example_heap 0 ''isEmpty'' = JFun (Lib 0)
   \<and> heap_get (heap (init_module example_heap 0)) (validator (init_module example_heap 0))
       ''isNull'' = JFun (Lib 0)
   \<and> call_method example_sem (heap (init_module example_heap 0))
       (validator (init_module example_heap 0)) ''isEmpty'' [JStr ''''] = Inr (JBool True)
   \<and> call_method example_sem (heap (init_module example_heap 0))
       (validator (init_module example_heap 0)) ''isNull'' [JStr ''''] = Inr (JBool True)
   \<and> notNull (JStr '''') = JBool True
   \<and> notNull JNull = JBool False"
proof -
  have lib: "heap_get example_heap 0 ''isEmpty'' = JFun (Lib 0)"
    by (simp add: heap_get_def obj_at_def example_heap_def own_value_def)
  note fact = isNull_is_isEmpty [of example_heap 0 example_sem "[JStr '''']" "Lib 0" JNull]
  have isNull: "heap_get (heap (init_module example_heap 0))
      (validator (init_module example_heap 0)) ''isNull'' = JFun (Lib 0)"
    using fact lib by blast
  have isEmpty: "heap_get (heap (init_module example_heap 0))
      (validator (init_module example_heap 0)) ''isEmpty'' = JFun (Lib 0)"
    using fact [THEN conjunct1] isNull by simp
  have "notNull (JStr '''') = JBool True" and "notNull JNull = JBool False"
    using isNull_is_isEmpty [of example_heap 0 example_sem "[JStr '''']" "Lib 0" "JStr ''''"]
      fact
    by simp_all
  then show ?thesis
    by (simp add: lib isNull call_method_def isEmpty example_sem_def)
qed

end
